theory Spec2Isabelle
  imports Complex_Main
begin

section \<open>The canvas as the managers see it\<close>

text \<open>
  The rendering engine is an external collaborator. Only what the managers read and write
  is modelled: the ordered scene objects, the viewport transform and the mutation
  notifications. A scene object is an opaque handle; a number stands for its serialized
  properties.
\<close>

type_synonym fabric_object = nat

text \<open>The 6-component affine matrix; \<open>vpt4\<close> and \<open>vpt5\<close> are the translation (e, f).\<close>

record tmat2d =
  vpt0 :: real
  vpt1 :: real
  vpt2 :: real
  vpt3 :: real
  vpt4 :: real
  vpt5 :: real

definition iMatrix :: tmat2d where
  "iMatrix = \<lparr>vpt0 = 1, vpt1 = 0, vpt2 = 0, vpt3 = 1, vpt4 = 0, vpt5 = 0\<rparr>"

text \<open>
  The value of \<open>canvas.toJSON()\<close>. \<open>JSON.stringify\<close> and \<open>JSON.parse\<close> are taken as
  inverse to each other, so a history entry holds the JSON value itself.
\<close>

record canvas_json =
  json_objects :: "fabric_object list"
  json_viewportTransform :: "tmat2d option"

record history_entry =
  state :: canvas_json
  timestamp :: nat

datatype history_state = HistoryState (hs_canUndo: bool) (hs_canRedo: bool)

datatype mutation = ObjectAdded | ObjectRemoved | ObjectModified

section \<open>History manager\<close>

text \<open>
  One record holds the canvas fields the manager touches, the manager's own fields, the
  values it pushed to the history-changed subject (oldest first) and the promises of
  \<open>loadFromJSON\<close> that have not resolved yet, each with the viewport its
  \<open>then\<close> callback captured. \<open>listening\<close> lists the canvas events for which a
  handler of the manager is registered. \<open>maxSize\<close> is a number of entries.
\<close>

record world =
  objects :: "fabric_object list"
  viewportTransform :: "tmat2d option"
  pendingLoads :: "(canvas_json \<times> tmat2d) list"
  listening :: "mutation list"
  undoStack :: "history_entry list"
  redoStack :: "history_entry list"
  isUndoing :: bool
  isRedoing :: bool
  enabled :: bool
  maxSize :: nat
  historyChanged :: "history_state list"

definition canUndo :: "world \<Rightarrow> bool" where
  "canUndo w = (length (undoStack w) > 1)"

definition canRedo :: "world \<Rightarrow> bool" where
  "canRedo w = (length (redoStack w) > 0)"

definition getUndoStackSize :: "world \<Rightarrow> nat" where
  "getUndoStackSize w = length (undoStack w)"

definition getRedoStackSize :: "world \<Rightarrow> nat" where
  "getRedoStackSize w = length (redoStack w)"

definition isEnabled :: "world \<Rightarrow> bool" where
  "isEnabled w = enabled w"

definition enable :: "world \<Rightarrow> world" where
  "enable w = w\<lparr>enabled := True\<rparr>"

definition disable :: "world \<Rightarrow> world" where
  "disable w = w\<lparr>enabled := False\<rparr>"

definition emitHistoryChanged :: "history_state \<Rightarrow> world \<Rightarrow> world" where
  "emitHistoryChanged hs w = w\<lparr>historyChanged := historyChanged w @ [hs]\<rparr>"

text \<open>\<open>toJSON\<close> of the engine, then \<open>delete json.viewportTransform\<close>.\<close>

definition toJSON :: "world \<Rightarrow> canvas_json" where
  "toJSON w = \<lparr>json_objects = objects w, json_viewportTransform = viewportTransform w\<rparr>"

definition getCanvasState :: "world \<Rightarrow> canvas_json" where
  "getCanvasState w = (toJSON w)\<lparr>json_viewportTransform := None\<rparr>"

text \<open>\<open>Date.now()\<close> is the argument \<open>now\<close> of every operation that reads the clock.\<close>

definition saveState :: "nat \<Rightarrow> world \<Rightarrow> world" where
  "saveState now w =
     (if \<not> enabled w then w
      else
        let currentState = getCanvasState w;
            w1 = w\<lparr>redoStack := []\<rparr>;
            entry = \<lparr>state = currentState, timestamp = now\<rparr>;
            w2 = w1\<lparr>undoStack := undoStack w1 @ [entry]\<rparr>;
            w3 = (if length (undoStack w2) > maxSize w2
                  then w2\<lparr>undoStack := tl (undoStack w2)\<rparr> else w2)
        in emitHistoryChanged (HistoryState (canUndo w3) (canRedo w3)) w3)"

text \<open>
  The three handlers registered by \<open>initialize\<close> have the same body. \<open>fire\<close> is the
  engine delivering a notification to the handler registered for it, if there is one.
\<close>

fun handler :: "mutation \<Rightarrow> nat \<Rightarrow> world \<Rightarrow> world" where
  "handler ObjectAdded now w =
     (if \<not> isUndoing w \<and> \<not> isRedoing w \<and> enabled w then saveState now w else w)"
| "handler ObjectRemoved now w =
     (if \<not> isUndoing w \<and> \<not> isRedoing w \<and> enabled w then saveState now w else w)"
| "handler ObjectModified now w =
     (if \<not> isUndoing w \<and> \<not> isRedoing w \<and> enabled w then saveState now w else w)"

definition fire :: "mutation \<Rightarrow> nat \<Rightarrow> world \<Rightarrow> world" where
  "fire ev now w = (if ev \<in> set (listening w) then handler ev now w else w)"

definition initialize :: "nat \<Rightarrow> world \<Rightarrow> world" where
  "initialize now w =
     (let w1 = saveState now w
      in w1\<lparr>listening := listening w1 @ [ObjectAdded, ObjectRemoved, ObjectModified]\<rparr>)"

text \<open>
  The constructor, on a canvas with the given scene and viewport; the configuration's
  \<open>maxSize\<close> is optional and defaults to 50.
\<close>

definition HistoryManager :: "fabric_object list \<Rightarrow> tmat2d option \<Rightarrow> nat option \<Rightarrow> nat \<Rightarrow> world" where
  "HistoryManager objs vpt config_maxSize now =
     initialize now
       \<lparr>objects = objs, viewportTransform = vpt, pendingLoads = [], listening = [],
        undoStack = [], redoStack = [], isUndoing = False, isRedoing = False,
        enabled = True,
        maxSize = (case config_maxSize of None \<Rightarrow> 50 | Some n \<Rightarrow> n),
        historyChanged = []\<rparr>"

text \<open>
  \<open>restoreState\<close> copies the current viewport (the identity when there is none) and
  calls \<open>loadFromJSON\<close>, which returns a promise: nothing of the scene changes before
  the promise resolves, after the caller has returned.
\<close>

definition restoreState :: "canvas_json \<Rightarrow> world \<Rightarrow> world" where
  "restoreState stateString w =
     (let currentViewport = (case viewportTransform w of Some v \<Rightarrow> v | None \<Rightarrow> iMatrix)
      in w\<lparr>pendingLoads := pendingLoads w @ [(stateString, currentViewport)]\<rparr>)"

definition undo :: "nat \<Rightarrow> world \<Rightarrow> world" where
  "undo now w =
     (if \<not> canUndo w then w
      else
        let w1 = w\<lparr>isUndoing := True\<rparr>;
            currentState = getCanvasState w1;
            w2 = w1\<lparr>redoStack := redoStack w1 @ [\<lparr>state = currentState, timestamp = now\<rparr>]\<rparr>;
            w3 = w2\<lparr>undoStack := butlast (undoStack w2)\<rparr>;
            w4 = (if undoStack w3 = [] then w3
                  else restoreState (state (last (undoStack w3))) w3);
            w5 = w4\<lparr>isUndoing := False\<rparr>
        in emitHistoryChanged (HistoryState (canUndo w5) (canRedo w5)) w5)"

definition redo :: "nat \<Rightarrow> world \<Rightarrow> world" where
  "redo now w =
     (if \<not> canRedo w then w
      else
        let w1 = w\<lparr>isRedoing := True\<rparr>;
            w2 = w1\<lparr>redoStack := butlast (redoStack w1)\<rparr>;
            w3 = (if redoStack w1 = [] then w2
                  else
                    let nextEntry = last (redoStack w1);
                        currentState = getCanvasState w2;
                        w2a = w2\<lparr>undoStack := undoStack w2 @ [\<lparr>state = currentState, timestamp = now\<rparr>]\<rparr>
                    in restoreState (state nextEntry) w2a);
            w4 = w3\<lparr>isRedoing := False\<rparr>
        in emitHistoryChanged (HistoryState (canUndo w4) (canRedo w4)) w4)"

definition clearHistory :: "nat \<Rightarrow> world \<Rightarrow> world" where
  "clearHistory now w =
     (let w1 = w\<lparr>undoStack := [], redoStack := []\<rparr>;
          w2 = saveState now w1
      in emitHistoryChanged (HistoryState False False) w2)"

definition destroy :: "nat \<Rightarrow> world \<Rightarrow> world" where
  "destroy now w = (clearHistory now w)\<lparr>enabled := False\<rparr>"

section \<open>What the engine does to the scene\<close>

text \<open>
  The engine's own operations, as far as the manager observes them. Adding, removing or
  modifying an object changes the scene and then delivers the notification.
\<close>

definition canvas_add :: "fabric_object \<Rightarrow> nat \<Rightarrow> world \<Rightarrow> world" where
  "canvas_add obj now w = fire ObjectAdded now (w\<lparr>objects := objects w @ [obj]\<rparr>)"

definition canvas_remove :: "fabric_object \<Rightarrow> nat \<Rightarrow> world \<Rightarrow> world" where
  "canvas_remove obj now w =
     (if obj \<in> set (objects w)
      then fire ObjectRemoved now (w\<lparr>objects := remove1 obj (objects w)\<rparr>)
      else w)"

definition canvas_modify :: "nat \<Rightarrow> fabric_object \<Rightarrow> nat \<Rightarrow> world \<Rightarrow> world" where
  "canvas_modify i obj now w =
     (if i < length (objects w)
      then fire ObjectModified now (w\<lparr>objects := (objects w)[i := obj]\<rparr>)
      else w)"

text \<open>
  Modelled from the spec: the engine's load-from-snapshot, \<open>loadFromJSON\<close>, which is
  not part of the sources. It is asynchronous, and the engine notifies its scene changes
  whoever makes them. When the promise resolves, the engine empties the scene, one object
  at a time with a removed notification each, puts the loaded objects in, with an added
  notification each, and sets the serialized canvas properties; then the \<open>then\<close>
  callback of \<open>restoreState\<close> sets the viewport it captured.
\<close>

fun canvas_clear :: "nat \<Rightarrow> nat \<Rightarrow> world \<Rightarrow> world" where
  "canvas_clear 0 now w = w"
| "canvas_clear (Suc n) now w =
     (case objects w of
        [] \<Rightarrow> w
      | obj # rest \<Rightarrow> canvas_clear n now (fire ObjectRemoved now (w\<lparr>objects := rest\<rparr>)))"

fun fire_added :: "fabric_object list \<Rightarrow> nat \<Rightarrow> world \<Rightarrow> world" where
  "fire_added [] now w = w"
| "fire_added (obj # rest) now w = fire_added rest now (fire ObjectAdded now w)"

definition setViewportTransform :: "tmat2d \<Rightarrow> world \<Rightarrow> world" where
  "setViewportTransform vpt w = w\<lparr>viewportTransform := Some vpt\<rparr>"

definition resolveLoad :: "canvas_json \<times> tmat2d \<Rightarrow> nat \<Rightarrow> world \<Rightarrow> world" where
  "resolveLoad p now w =
     (let w1 = canvas_clear (length (objects w)) now w;
          w2 = fire_added (json_objects (fst p)) now (w1\<lparr>objects := json_objects (fst p)\<rparr>);
          w3 = (case json_viewportTransform (fst p) of
                  None \<Rightarrow> w2
                | Some v \<Rightarrow> w2\<lparr>viewportTransform := Some v\<rparr>)
      in setViewportTransform (snd p) w3)"

text \<open>
  The promises in flight resolve one at a time and in no fixed order: \<open>resolveNth i\<close>
  is the \<open>i\<close>-th pending one resolving.
\<close>

definition resolveNth :: "nat \<Rightarrow> nat \<Rightarrow> world \<Rightarrow> world" where
  "resolveNth i now w =
     (if i < length (pendingLoads w)
      then resolveLoad (pendingLoads w ! i) now
             (w\<lparr>pendingLoads := take i (pendingLoads w) @ drop (Suc i) (pendingLoads w)\<rparr>)
      else w)"

text \<open>
  What can happen to a manager after its construction: calls of its methods, scene
  mutations through the engine, viewport changes by the pan and zoom sources, and the
  event loop resolving one of the pending promises. Each step carries the clock's value.
\<close>

datatype action =
    SaveState
  | Undo
  | Redo
  | ClearHistory
  | Enable
  | Disable
  | Destroy
  | Add fabric_object
  | Remove fabric_object
  | Modify nat fabric_object
  | SetViewport tmat2d
  | Resolve nat

fun step :: "world \<Rightarrow> nat \<times> action \<Rightarrow> world" where
  "step w (now, SaveState) = saveState now w"
| "step w (now, Undo) = undo now w"
| "step w (now, Redo) = redo now w"
| "step w (now, ClearHistory) = clearHistory now w"
| "step w (now, Enable) = enable w"
| "step w (now, Disable) = disable w"
| "step w (now, Destroy) = destroy now w"
| "step w (now, Add obj) = canvas_add obj now w"
| "step w (now, Remove obj) = canvas_remove obj now w"
| "step w (now, Modify i obj) = canvas_modify i obj now w"
| "step w (now, SetViewport vpt) = setViewportTransform vpt w"
| "step w (now, Resolve i) = resolveNth i now w"

definition run :: "world \<Rightarrow> (nat \<times> action) list \<Rightarrow> world" where
  "run w acts = foldl step w acts"

text \<open>\<open>n\<close> states saved one after the other, at the times \<open>now\<close>, \<open>now + 1\<close>, ...\<close>

fun saveStates :: "nat \<Rightarrow> nat \<Rightarrow> world \<Rightarrow> world" where
  "saveStates 0 now w = w"
| "saveStates (Suc n) now w = saveStates n (Suc now) (saveState now w)"

text \<open>The two stacks together fit in \<open>maxSize\<close>; every operation keeps this.\<close>

definition bounded :: "world \<Rightarrow> bool" where
  "bounded w = (length (undoStack w) + length (redoStack w) \<le> maxSize w)"

section \<open>Input manager: the three pan sources\<close>

text \<open>
  The canvas fields the pan handlers touch and the manager's pan fields. A listener that
  is \<open>null\<close> or not registered is \<open>False\<close> in \<open>mouseWheelRegistered\<close> and
  \<open>hammer\<close>; the spacebar listeners are registered exactly while
  \<open>spacebarPanEnabled\<close>. Numbers are reals.
\<close>

record input_manager =
  canvasViewport :: "tmat2d option"
  activeObject :: "fabric_object option"
  selection :: bool
  spacebarPanEnabled :: bool
  spacebarPressed :: bool
  mouseDown :: bool
  lastPosX :: real
  lastPosY :: real
  mouseWheelRegistered :: bool
  hammer :: bool
  touchPanLastX :: real
  touchPanLastY :: real
  touchPanMaxJump :: real

record keyboard_event =
  code :: string
  key :: string

record mouse_event =
  movementX :: real
  movementY :: real

record wheel_event =
  deltaX :: real
  deltaY :: real

record point =
  x_of :: real
  y_of :: real

text \<open>
  The constructor enables each pan source unless the configuration switches it off (the
  canvas element the touch source attaches to is taken to exist);
  \<open>touchPanMaxJump\<close> defaults to 200.
\<close>

record input_config =
  spacebarPan :: "bool option"
  mouseWheelPan :: "bool option"
  touchPan :: "bool option"
  config_touchPanMaxJump :: "real option"

definition InputManager :: "tmat2d option \<Rightarrow> input_config \<Rightarrow> input_manager" where
  "InputManager v config =
     \<lparr>canvasViewport = v, activeObject = None, selection = True,
      spacebarPanEnabled = (case spacebarPan config of None \<Rightarrow> True | Some b \<Rightarrow> b),
      spacebarPressed = False, mouseDown = False,
      lastPosX = 0, lastPosY = 0,
      mouseWheelRegistered = (case mouseWheelPan config of None \<Rightarrow> True | Some b \<Rightarrow> b),
      hammer = (case touchPan config of None \<Rightarrow> True | Some b \<Rightarrow> b),
      touchPanLastX = 0, touchPanLastY = 0,
      touchPanMaxJump = (case config_touchPanMaxJump config of None \<Rightarrow> 200 | Some m \<Rightarrow> m)\<rparr>"

definition spacebarKeydownListener :: "keyboard_event \<Rightarrow> input_manager \<Rightarrow> input_manager" where
  "spacebarKeydownListener e s =
     (if code e = ''Space'' \<or> key e = '' '' then s\<lparr>spacebarPressed := True\<rparr> else s)"

definition spacebarKeyupListener :: "keyboard_event \<Rightarrow> input_manager \<Rightarrow> input_manager" where
  "spacebarKeyupListener e s =
     (if code e = ''Space'' \<or> key e = '' ''
      then s\<lparr>spacebarPressed := False, lastPosX := 0, lastPosY := 0\<rparr> else s)"

definition mouseDownListener :: "input_manager \<Rightarrow> input_manager" where
  "mouseDownListener s = s\<lparr>mouseDown := True\<rparr>"

definition mouseUpListener :: "input_manager \<Rightarrow> input_manager" where
  "mouseUpListener s = s\<lparr>mouseDown := False, lastPosX := 0, lastPosY := 0\<rparr>"

definition mouseMoveListener :: "mouse_event \<Rightarrow> input_manager \<Rightarrow> input_manager" where
  "mouseMoveListener e s =
     (if \<not> spacebarPressed s \<or> \<not> mouseDown s then s
      else case canvasViewport s of
        None \<Rightarrow> s
      | Some vpt \<Rightarrow>
          s\<lparr>canvasViewport :=
               Some (vpt\<lparr>vpt4 := vpt4 vpt + (movementX e + lastPosX s),
                         vpt5 := vpt5 vpt + (movementY e + lastPosY s)\<rparr>),
            lastPosX := movementX e,
            lastPosY := movementY e\<rparr>)"

definition mouseWheelListener :: "wheel_event \<Rightarrow> input_manager \<Rightarrow> input_manager" where
  "mouseWheelListener e s =
     (case canvasViewport s of
        None \<Rightarrow> s
      | Some vpt \<Rightarrow>
          s\<lparr>canvasViewport :=
               Some (vpt\<lparr>vpt4 := vpt4 vpt + (deltaX e + lastPosX s),
                         vpt5 := vpt5 vpt + (deltaY e + lastPosY s)\<rparr>),
            lastPosX := deltaX e,
            lastPosY := deltaY e\<rparr>)"

text \<open>The canvas and the document delivering an event to the listener registered for it.\<close>

definition on_keydown :: "keyboard_event \<Rightarrow> input_manager \<Rightarrow> input_manager" where
  "on_keydown e s = (if spacebarPanEnabled s then spacebarKeydownListener e s else s)"

definition on_keyup :: "keyboard_event \<Rightarrow> input_manager \<Rightarrow> input_manager" where
  "on_keyup e s = (if spacebarPanEnabled s then spacebarKeyupListener e s else s)"

definition on_mouse_down :: "input_manager \<Rightarrow> input_manager" where
  "on_mouse_down s = (if spacebarPanEnabled s then mouseDownListener s else s)"

definition on_mouse_up :: "input_manager \<Rightarrow> input_manager" where
  "on_mouse_up s = (if spacebarPanEnabled s then mouseUpListener s else s)"

definition on_mouse_move :: "mouse_event \<Rightarrow> input_manager \<Rightarrow> input_manager" where
  "on_mouse_move e s = (if spacebarPanEnabled s then mouseMoveListener e s else s)"

definition on_mouse_wheel :: "wheel_event \<Rightarrow> input_manager \<Rightarrow> input_manager" where
  "on_mouse_wheel e s = (if mouseWheelRegistered s then mouseWheelListener e s else s)"

text \<open>\<open>ViewportManager.pan\<close>, which the touch handler calls.\<close>

definition pan :: "point \<Rightarrow> input_manager \<Rightarrow> input_manager" where
  "pan offset s =
     (case canvasViewport s of
        None \<Rightarrow> s
      | Some vpt \<Rightarrow>
          s\<lparr>canvasViewport :=
               Some (vpt\<lparr>vpt4 := vpt4 vpt + x_of offset, vpt5 := vpt5 vpt + y_of offset\<rparr>)\<rparr>)"

text \<open>The Hammer handlers; the argument is \<open>e.center\<close>.\<close>

definition panstart :: "point \<Rightarrow> input_manager \<Rightarrow> input_manager" where
  "panstart center s =
     s\<lparr>selection := False, touchPanLastX := x_of center, touchPanLastY := y_of center\<rparr>"

definition panmove :: "point \<Rightarrow> input_manager \<Rightarrow> input_manager" where
  "panmove center s =
     (if activeObject s \<noteq> None then s
      else
        let currentX = x_of center;
            currentY = y_of center;
            xChange = currentX - touchPanLastX s;
            yChange = currentY - touchPanLastY s;
            s1 = (if \<bar>xChange\<bar> \<le> touchPanMaxJump s \<and> \<bar>yChange\<bar> \<le> touchPanMaxJump s
                  then pan \<lparr>x_of = xChange, y_of = yChange\<rparr> s else s)
        in s1\<lparr>touchPanLastX := currentX, touchPanLastY := currentY\<rparr>)"

definition panend :: "input_manager \<Rightarrow> input_manager" where
  "panend s = s\<lparr>selection := True\<rparr>"

text \<open>The Hammer manager delivering a gesture event, if it exists.\<close>

definition on_panstart :: "point \<Rightarrow> input_manager \<Rightarrow> input_manager" where
  "on_panstart center s = (if hammer s then panstart center s else s)"

definition on_panmove :: "point \<Rightarrow> input_manager \<Rightarrow> input_manager" where
  "on_panmove center s = (if hammer s then panmove center s else s)"

definition on_panend :: "input_manager \<Rightarrow> input_manager" where
  "on_panend s = (if hammer s then panend s else s)"

section \<open>Event manager: the debounced change channel\<close>

text \<open>
  What reaches the event manager: an event of the canvas with its \<open>target\<close>, which may
  be missing, or a call of one of the \<open>emit\<close> methods.
\<close>

datatype bus_input =
    Canvas_object_added "fabric_object option"
  | Canvas_object_removed "fabric_object option"
  | Canvas_object_modified "fabric_object option"
  | Canvas_selection_created
  | Canvas_selection_updated
  | Canvas_selection_cleared
  | Canvas_before_render
  | Canvas_text_changed "fabric_object option"
  | EmitHistoryChanged history_state
  | EmitZoomChanged real
  | EmitObjectLocked fabric_object
  | EmitObjectUnlocked fabric_object

datatype subject =
    objectAddedSubject
  | objectRemovedSubject
  | objectModifiedSubject
  | objectLockedSubject
  | objectUnlockedSubject
  | selectionChangedSubject
  | historyChangedSubject
  | zoomChangedSubject
  | beforeRenderSubject
  | textChangedSubject

text \<open>The subject whose \<open>next\<close> an input reaches; none when the target is missing.\<close>

fun subject_of :: "bus_input \<Rightarrow> subject option" where
  "subject_of (Canvas_object_added target) =
     (if target \<noteq> None then Some objectAddedSubject else None)"
| "subject_of (Canvas_object_removed target) =
     (if target \<noteq> None then Some objectRemovedSubject else None)"
| "subject_of (Canvas_object_modified target) =
     (if target \<noteq> None then Some objectModifiedSubject else None)"
| "subject_of Canvas_selection_created = Some selectionChangedSubject"
| "subject_of Canvas_selection_updated = Some selectionChangedSubject"
| "subject_of Canvas_selection_cleared = Some selectionChangedSubject"
| "subject_of Canvas_before_render = Some beforeRenderSubject"
| "subject_of (Canvas_text_changed target) =
     (if target \<noteq> None then Some textChangedSubject else None)"
| "subject_of (EmitHistoryChanged hs) = Some historyChangedSubject"
| "subject_of (EmitZoomChanged zoom) = Some zoomChangedSubject"
| "subject_of (EmitObjectLocked obj) = Some objectLockedSubject"
| "subject_of (EmitObjectUnlocked obj) = Some objectUnlockedSubject"

definition onChange_sources :: "subject list" where
  "onChange_sources =
     [objectAddedSubject, objectRemovedSubject, objectModifiedSubject,
      objectLockedSubject, objectUnlockedSubject, textChangedSubject]"

definition qualifying :: "bus_input \<Rightarrow> bool" where
  "qualifying i = (case subject_of i of None \<Rightarrow> False | Some sj \<Rightarrow> sj \<in> set onChange_sources)"

text \<open>
  \<open>merge\<close> of the six subjects over a timeline of inputs, each with the time in
  milliseconds at which it arrives: the times at which the merged stream has a value.
\<close>

definition merged :: "(nat \<times> bus_input) list \<Rightarrow> nat list" where
  "merged timeline = map fst (filter (\<lambda>p. qualifying (snd p)) timeline)"

text \<open>
  Modelled from the spec: \<open>debounceTime\<close>, an operator of the reactive library, which is
  not part of the sources. It is a trailing-edge debounce: every source value starts the
  timer anew, and a timer that runs out emits. The second argument is the time at which
  the running timer, if any, runs out; the result lists the times of the emissions, the
  source staying open and silent after the last value of the list.
\<close>

fun debounceTime :: "nat \<Rightarrow> nat option \<Rightarrow> nat list \<Rightarrow> nat list" where
  "debounceTime dueTime None [] = []"
| "debounceTime dueTime (Some due) [] = [due]"
| "debounceTime dueTime None (t # ts) = debounceTime dueTime (Some (t + dueTime)) ts"
| "debounceTime dueTime (Some due) (t # ts) =
     (if due \<le> t then due # debounceTime dueTime (Some (t + dueTime)) ts
      else debounceTime dueTime (Some (t + dueTime)) ts)"

text \<open>The constructor's \<open>debounceMs\<close> defaults to 1000.\<close>

definition EventManager_debounceMs :: "nat option \<Rightarrow> nat" where
  "EventManager_debounceMs config_debounce = (case config_debounce of None \<Rightarrow> 1000 | Some d \<Rightarrow> d)"

text \<open>What a subscriber of \<open>onChange()\<close> receives: the time of each value, mapped to nothing.\<close>

definition onChange :: "nat \<Rightarrow> (nat \<times> bus_input) list \<Rightarrow> (nat \<times> unit) list" where
  "onChange debounceMs timeline = map (\<lambda>t. (t, ())) (debounceTime debounceMs None (merged timeline))"

text \<open>A burst: times in order, each less than \<open>d\<close> after the one before.\<close>

fun burst :: "nat \<Rightarrow> nat list \<Rightarrow> bool" where
  "burst d [] = True"
| "burst d [t] = True"
| "burst d (t # t' # ts) = (t \<le> t' \<and> t' < t + d \<and> burst d (t' # ts))"

section \<open>Scenarios\<close>

text \<open>
  A manager constructed at time 0 on an empty canvas with the default configuration; the
  same after one object was added at time 1; and a manager of \<open>maxSize\<close> 2 after two
  additions, an undo, the restore it started, and a third addition.
\<close>

definition fresh_manager :: world where
  "fresh_manager = HistoryManager [] (Some iMatrix) None 0"

definition one_object_added :: world where
  "one_object_added = canvas_add 7 1 fresh_manager"

definition small_manager :: world where
  "small_manager =
     run (HistoryManager [] (Some iMatrix) (Some 2) 0)
       [(1, Add 1), (2, Add 2), (3, Undo), (4, Resolve 0), (5, Add 3)]"

text \<open>
  An input manager with the default configuration; the same after the space key went
  down, the mouse went down and moved by (5, 7); and then a wheel event of (1, 2).
\<close>

definition default_input :: input_manager where
  "default_input =
     InputManager (Some iMatrix)
       \<lparr>spacebarPan = None, mouseWheelPan = None, touchPan = None, config_touchPanMaxJump = None\<rparr>"

definition after_spacebar_drag :: input_manager where
  "after_spacebar_drag =
     on_mouse_move \<lparr>movementX = 5, movementY = 7\<rparr>
       (on_mouse_down (on_keydown \<lparr>code = ''Space'', key = '' ''\<rparr> default_input))"

definition after_wheel :: input_manager where
  "after_wheel = on_mouse_wheel \<lparr>deltaX = 1, deltaY = 2\<rparr> after_spacebar_drag"

text \<open>
  A two-finger gesture that started at (100, 100), and a timeline of four inputs of which
  three reach the change channel.
\<close>

definition touch_started :: input_manager where
  "touch_started = on_panstart \<lparr>x_of = 100, y_of = 100\<rparr> default_input"

definition burst_timeline :: "(nat \<times> bus_input) list" where
  "burst_timeline =
     [(0, Canvas_object_added (Some 1)), (10, Canvas_selection_created),
      (999, EmitObjectLocked 1), (1500, Canvas_text_changed (Some 1))]"

section \<open>What each operation leaves alone\<close>

lemma saveState_canvas [simp]:
  "objects (saveState now w) = objects w"
  "viewportTransform (saveState now w) = viewportTransform w"
  "pendingLoads (saveState now w) = pendingLoads w"
  "listening (saveState now w) = listening w"
  "isUndoing (saveState now w) = isUndoing w"
  "isRedoing (saveState now w) = isRedoing w"
  "enabled (saveState now w) = enabled w"
  "maxSize (saveState now w) = maxSize w"
  by (simp_all add: saveState_def emitHistoryChanged_def Let_def)

lemma saveState_redoStack:
  "redoStack (saveState now w) = (if enabled w then [] else redoStack w)"
  by (simp add: saveState_def emitHistoryChanged_def Let_def)

lemma saveState_undoStack:
  "undoStack (saveState now w) =
     (if \<not> enabled w then undoStack w
      else if length (undoStack w) < maxSize w
      then undoStack w @ [\<lparr>state = getCanvasState w, timestamp = now\<rparr>]
      else tl (undoStack w @ [\<lparr>state = getCanvasState w, timestamp = now\<rparr>]))"
  by (simp add: saveState_def emitHistoryChanged_def Let_def getCanvasState_def toJSON_def)

lemma handler_eq:
  "handler ev now w =
     (if \<not> isUndoing w \<and> \<not> isRedoing w \<and> enabled w then saveState now w else w)"
  by (cases ev) simp_all

lemma fire_canvas [simp]:
  "objects (fire ev now w) = objects w"
  "viewportTransform (fire ev now w) = viewportTransform w"
  "pendingLoads (fire ev now w) = pendingLoads w"
  "listening (fire ev now w) = listening w"
  "isUndoing (fire ev now w) = isUndoing w"
  "isRedoing (fire ev now w) = isRedoing w"
  "enabled (fire ev now w) = enabled w"
  "maxSize (fire ev now w) = maxSize w"
  by (simp_all add: fire_def handler_eq)

lemma canvas_clear_fields [simp]:
  "viewportTransform (canvas_clear n now w) = viewportTransform w"
  "maxSize (canvas_clear n now w) = maxSize w"
  "enabled (canvas_clear n now w) = enabled w"
  by (induction n now w rule: canvas_clear.induct) (simp_all split: list.splits)

lemma fire_added_fields [simp]:
  "objects (fire_added objs now w) = objects w"
  "viewportTransform (fire_added objs now w) = viewportTransform w"
  "maxSize (fire_added objs now w) = maxSize w"
  "enabled (fire_added objs now w) = enabled w"
  by (induction objs now w rule: fire_added.induct) simp_all

lemma resolveLoad_scene:
  "objects (resolveLoad p now w) = json_objects (fst p)"
  "viewportTransform (resolveLoad p now w) = Some (snd p)"
  "maxSize (resolveLoad p now w) = maxSize w"
  "enabled (resolveLoad p now w) = enabled w"
  by (simp_all add: resolveLoad_def Let_def setViewportTransform_def split: option.splits)

lemma resolveNth_scene:
  "i < length (pendingLoads w) \<Longrightarrow>
     objects (resolveNth i now w) = json_objects (fst (pendingLoads w ! i)) \<and>
     viewportTransform (resolveNth i now w) = Some (snd (pendingLoads w ! i))"
  by (simp add: resolveNth_def resolveLoad_scene)

section \<open>Undo\<close>

lemma undo_sync:
  assumes "canUndo w"
  shows "redoStack (undo now w) = redoStack w @ [\<lparr>state = getCanvasState w, timestamp = now\<rparr>]"
    and "undoStack (undo now w) = butlast (undoStack w)"
    and "pendingLoads (undo now w) =
           pendingLoads w @ [(state (last (butlast (undoStack w))),
                              case viewportTransform w of Some v \<Rightarrow> v | None \<Rightarrow> iMatrix)]"
    and "objects (undo now w) = objects w"
    and "viewportTransform (undo now w) = viewportTransform w"
    and "isUndoing (undo now w) = False"
proof -
  from assms have ne: "butlast (undoStack w) \<noteq> []"
    by (cases "undoStack w" rule: rev_cases) (auto simp: canUndo_def)
  show "redoStack (undo now w) = redoStack w @ [\<lparr>state = getCanvasState w, timestamp = now\<rparr>]"
    using assms ne
    by (simp add: undo_def Let_def emitHistoryChanged_def restoreState_def getCanvasState_def
        toJSON_def)
  show "undoStack (undo now w) = butlast (undoStack w)"
    using assms ne by (simp add: undo_def Let_def emitHistoryChanged_def restoreState_def)
  show "pendingLoads (undo now w) =
           pendingLoads w @ [(state (last (butlast (undoStack w))),
                              case viewportTransform w of Some v \<Rightarrow> v | None \<Rightarrow> iMatrix)]"
    using assms ne by (simp add: undo_def Let_def emitHistoryChanged_def restoreState_def)
  show "objects (undo now w) = objects w"
    using assms ne by (simp add: undo_def Let_def emitHistoryChanged_def restoreState_def)
  show "viewportTransform (undo now w) = viewportTransform w"
    using assms ne by (simp add: undo_def Let_def emitHistoryChanged_def restoreState_def)
  show "isUndoing (undo now w) = False"
    using assms ne by (simp add: undo_def Let_def emitHistoryChanged_def restoreState_def)
qed

text \<open>
  C1. When \<open>canUndo\<close> holds, \<open>undo\<close> appends the current serialized scene to the redo
  stack, removes the top entry of the undo stack and starts the load of the new top entry,
  together with the viewport transform the canvas has at that moment (the identity if it
  has none); scene and viewport are untouched when it returns. Whenever that load
  resolves, in whatever state \<open>w'\<close> the manager and the canvas are by then and whichever
  other loads are pending, the scene becomes the one of the new top entry and the
  viewport transform the one of the time of the undo. When \<open>canUndo\<close> does not hold,
  \<open>undo\<close> changes nothing.
\<close>

theorem undo_restores_prior_state:
  "(canUndo w \<longrightarrow>
      redoStack (undo now w) = redoStack w @ [\<lparr>state = getCanvasState w, timestamp = now\<rparr>] \<and>
      undoStack (undo now w) = butlast (undoStack w) \<and>
      objects (undo now w) = objects w \<and>
      viewportTransform (undo now w) = viewportTransform w \<and>
      pendingLoads (undo now w) =
        pendingLoads w @ [(state (last (butlast (undoStack w))),
                           case viewportTransform w of Some v \<Rightarrow> v | None \<Rightarrow> iMatrix)] \<and>
      (i < length (pendingLoads w') \<and>
       pendingLoads w' ! i = (state (last (butlast (undoStack w))),
                              case viewportTransform w of Some v \<Rightarrow> v | None \<Rightarrow> iMatrix) \<longrightarrow>
         objects (resolveNth i later w') = json_objects (state (last (butlast (undoStack w)))) \<and>
         viewportTransform (resolveNth i later w') =
           Some (case viewportTransform w of Some v \<Rightarrow> v | None \<Rightarrow> iMatrix))) \<and>
   (\<not> canUndo w \<longrightarrow> undo now w = w)"
proof (intro conjI impI)
  assume c: "canUndo w"
  show "redoStack (undo now w) = redoStack w @ [\<lparr>state = getCanvasState w, timestamp = now\<rparr>]"
    by (rule undo_sync(1)[OF c])
  show "undoStack (undo now w) = butlast (undoStack w)"
    by (rule undo_sync(2)[OF c])
  show "objects (undo now w) = objects w"
    by (rule undo_sync(4)[OF c])
  show "viewportTransform (undo now w) = viewportTransform w"
    by (rule undo_sync(5)[OF c])
  show "pendingLoads (undo now w) =
        pendingLoads w @ [(state (last (butlast (undoStack w))),
                           case viewportTransform w of Some v \<Rightarrow> v | None \<Rightarrow> iMatrix)]"
    by (rule undo_sync(3)[OF c])
next
  assume r: "i < length (pendingLoads w') \<and>
       pendingLoads w' ! i = (state (last (butlast (undoStack w))),
                              case viewportTransform w of Some v \<Rightarrow> v | None \<Rightarrow> iMatrix)"
  then show "objects (resolveNth i later w') = json_objects (state (last (butlast (undoStack w))))"
    using resolveNth_scene[of i w' later] by simp
  from r show "viewportTransform (resolveNth i later w') =
           Some (case viewportTransform w of Some v \<Rightarrow> v | None \<Rightarrow> iMatrix)"
    using resolveNth_scene[of i w' later] by simp
next
  assume "\<not> canUndo w"
  then show "undo now w = w" by (simp add: undo_def)
qed

theorem undo_restores_prior_state_witness:
  "canUndo one_object_added \<and>
   redoStack (undo 2 one_object_added) =
     [\<lparr>state = \<lparr>json_objects = [7], json_viewportTransform = None\<rparr>, timestamp = 2\<rparr>] \<and>
   undoStack (undo 2 one_object_added) =
     [\<lparr>state = \<lparr>json_objects = [], json_viewportTransform = None\<rparr>, timestamp = 0\<rparr>] \<and>
   objects (undo 2 one_object_added) = [7] \<and>
   pendingLoads (setViewportTransform (iMatrix\<lparr>vpt4 := 40\<rparr>) (undo 2 one_object_added)) =
     [(\<lparr>json_objects = [], json_viewportTransform = None\<rparr>, iMatrix)] \<and>
   objects
     (resolveNth 0 3 (setViewportTransform (iMatrix\<lparr>vpt4 := 40\<rparr>) (undo 2 one_object_added))) =
     [] \<and>
   viewportTransform
     (resolveNth 0 3 (setViewportTransform (iMatrix\<lparr>vpt4 := 40\<rparr>) (undo 2 one_object_added))) =
     Some iMatrix \<and>
   \<not> canUndo fresh_manager \<and> undo 1 fresh_manager = fresh_manager"
proof -
  have c: "canUndo one_object_added"
    by code_simp
  have r: "redoStack one_object_added = []"
    by code_simp
  have g: "getCanvasState one_object_added = \<lparr>json_objects = [7], json_viewportTransform = None\<rparr>"
    by code_simp
  have u: "butlast (undoStack one_object_added) =
             [\<lparr>state = \<lparr>json_objects = [], json_viewportTransform = None\<rparr>, timestamp = 0\<rparr>]"
    by code_simp
  have v: "viewportTransform one_object_added = Some iMatrix"
    by code_simp
  have o: "objects one_object_added = [7]"
    by code_simp
  have p: "pendingLoads (setViewportTransform (iMatrix\<lparr>vpt4 := 40\<rparr>) (undo 2 one_object_added)) =
             [(\<lparr>json_objects = [], json_viewportTransform = None\<rparr>, iMatrix)]"
    by code_simp
  have f: "\<not> canUndo fresh_manager"
    by code_simp
  from undo_restores_prior_state[of one_object_added 2 0
      "setViewportTransform (iMatrix\<lparr>vpt4 := 40\<rparr>) (undo 2 one_object_added)" 3]
    undo_restores_prior_state[of fresh_manager 1] c f
  show ?thesis
    by (simp add: r g u v o p)
qed

section \<open>The bound on the undo stack\<close>

lemma bounded_saveState: "bounded w \<Longrightarrow> bounded (saveState now w)"
  by (auto simp: bounded_def saveState_undoStack saveState_redoStack)

lemma bounded_fire: "bounded w \<Longrightarrow> bounded (fire ev now w)"
  by (simp add: fire_def handler_eq bounded_saveState)

lemma bounded_update [simp]:
  "bounded (w\<lparr>objects := x\<rparr>) = bounded w"
  "bounded (w\<lparr>viewportTransform := y\<rparr>) = bounded w"
  "bounded (w\<lparr>enabled := z\<rparr>) = bounded w"
  "bounded (w\<lparr>pendingLoads := p\<rparr>) = bounded w"
  by (simp_all add: bounded_def)

lemma bounded_undo: "bounded w \<Longrightarrow> bounded (undo now w)"
  by (auto simp: bounded_def undo_def canUndo_def Let_def emitHistoryChanged_def restoreState_def)

lemma bounded_redo: "bounded w \<Longrightarrow> bounded (redo now w)"
  by (cases "redoStack w")
     (auto simp: bounded_def redo_def canRedo_def Let_def emitHistoryChanged_def restoreState_def)

lemma bounded_clearHistory: "bounded w \<Longrightarrow> bounded (clearHistory now w)"
  by (auto simp: bounded_def clearHistory_def Let_def emitHistoryChanged_def
      saveState_undoStack saveState_redoStack)

lemma bounded_canvas_clear: "bounded w \<Longrightarrow> bounded (canvas_clear n now w)"
  by (induction n now w rule: canvas_clear.induct) (simp_all add: bounded_fire split: list.splits)

lemma bounded_fire_added: "bounded w \<Longrightarrow> bounded (fire_added objs now w)"
  by (induction objs now w rule: fire_added.induct) (simp_all add: bounded_fire)

lemma bounded_resolveLoad: "bounded w \<Longrightarrow> bounded (resolveLoad p now w)"
  by (auto simp: resolveLoad_def Let_def setViewportTransform_def split: option.splits
      intro!: bounded_fire_added bounded_canvas_clear)

lemma bounded_resolveNth: "bounded w \<Longrightarrow> bounded (resolveNth i now w)"
  by (simp add: resolveNth_def bounded_resolveLoad)

lemma bounded_step: "bounded w \<Longrightarrow> bounded (step w a)"
  by (cases "(w, a)" rule: step.cases)
     (auto simp: enable_def disable_def destroy_def canvas_add_def canvas_remove_def
        canvas_modify_def setViewportTransform_def
        intro: bounded_saveState bounded_undo bounded_redo bounded_clearHistory
          bounded_fire bounded_resolveNth)

lemma bounded_run: "bounded w \<Longrightarrow> bounded (run w acts)"
  unfolding run_def by (induction acts arbitrary: w) (auto intro: bounded_step)

lemma bounded_HistoryManager: "bounded (HistoryManager objs vpt cfg now)"
  by (auto simp: HistoryManager_def initialize_def Let_def bounded_def saveState_undoStack
      saveState_redoStack)

lemma maxSize_undo [simp]: "maxSize (undo now w) = maxSize w"
  by (simp add: undo_def Let_def emitHistoryChanged_def restoreState_def)

lemma maxSize_redo [simp]: "maxSize (redo now w) = maxSize w"
  by (simp add: redo_def Let_def emitHistoryChanged_def restoreState_def)

lemma maxSize_clearHistory [simp]: "maxSize (clearHistory now w) = maxSize w"
  by (simp add: clearHistory_def Let_def emitHistoryChanged_def)

lemma maxSize_resolveNth [simp]: "maxSize (resolveNth i now w) = maxSize w"
  by (simp add: resolveNth_def resolveLoad_scene)

lemma maxSize_step: "maxSize (step w a) = maxSize w"
  by (cases "(w, a)" rule: step.cases)
     (simp_all add: enable_def disable_def destroy_def canvas_add_def canvas_remove_def
        canvas_modify_def setViewportTransform_def)

lemma maxSize_run: "maxSize (run w acts) = maxSize w"
  unfolding run_def by (induction acts arbitrary: w) (simp_all add: maxSize_step)

lemma maxSize_HistoryManager:
  "maxSize (HistoryManager objs vpt cfg now) = (case cfg of None \<Rightarrow> 50 | Some n \<Rightarrow> n)"
  by (simp add: HistoryManager_def initialize_def Let_def)

lemma saveStates_fields [simp]:
  "enabled (saveStates n now w) = enabled w"
  "maxSize (saveStates n now w) = maxSize w"
  by (induction n now w rule: saveStates.induct) simp_all

lemma length_saveStates:
  "enabled w \<Longrightarrow> length (undoStack w) \<le> maxSize w \<Longrightarrow>
     length (undoStack (saveStates n now w)) = min (length (undoStack w) + n) (maxSize w)"
proof (induction n now w rule: saveStates.induct)
  case (1 now w)
  then show ?case by simp
next
  case (2 n now w)
  have "length (undoStack (saveState now w)) = min (length (undoStack w) + 1) (maxSize w)"
    using "2.prems" by (auto simp: saveState_undoStack)
  moreover have "length (undoStack (saveState now w)) \<le> maxSize w"
    using "2.prems" by (auto simp: saveState_undoStack)
  ultimately show ?case
    using "2.IH" "2.prems" by simp
qed

lemma getCanvasState_saveState [simp]: "getCanvasState (saveState now w) = getCanvasState w"
  by (simp add: getCanvasState_def toJSON_def)

lemma saveStates_drop:
  "enabled w \<Longrightarrow> length (undoStack w) \<le> maxSize w \<Longrightarrow>
     undoStack (saveStates n now w) =
       drop (length (undoStack w) + n - maxSize w)
         (undoStack w @ map (\<lambda>i. \<lparr>state = getCanvasState w, timestamp = now + i\<rparr>) [0..<n])"
proof (induction n now w rule: saveStates.induct)
  case (1 now w)
  then show ?case by simp
next
  case (2 n now w)
  let ?e = "\<lparr>state = getCanvasState w, timestamp = now\<rparr>"
  let ?w = "saveState now w"
  let ?rest = "map (\<lambda>i. \<lparr>state = getCanvasState w, timestamp = Suc now + i\<rparr>) [0..<n]"
  have en: "enabled ?w" using "2.prems" by simp
  have le: "length (undoStack ?w) \<le> maxSize ?w"
    using "2.prems" by (auto simp: saveState_undoStack)
  have ih: "undoStack (saveStates n (Suc now) ?w) =
       drop (length (undoStack ?w) + n - maxSize w) (undoStack ?w @ ?rest)"
    using "2.IH"[OF en le] by simp
  have m: "map (\<lambda>i. \<lparr>state = getCanvasState w, timestamp = now + i\<rparr>) [0..<Suc n] = ?e # ?rest"
    by (simp add: upt_conv_Cons map_Suc_upt[symmetric] del: upt_Suc)
  show ?case
  proof (cases "length (undoStack w) < maxSize w")
    case True
    then have "undoStack ?w = undoStack w @ [?e]"
      using "2.prems" by (simp add: saveState_undoStack)
    then show ?thesis
      using ih m by simp
  next
    case False
    then have eq: "length (undoStack w) = maxSize w" using "2.prems" by simp
    have u: "undoStack ?w = tl (undoStack w @ [?e])"
      using False "2.prems" by (simp add: saveState_undoStack)
    have a: "undoStack ?w @ ?rest = drop 1 (undoStack w @ ?e # ?rest)"
      by (cases "undoStack w") (simp_all add: u)
    have l: "length (undoStack ?w) + n - maxSize w = n"
      using u eq by simp
    have "undoStack (saveStates n (Suc now) ?w) = drop n (undoStack ?w @ ?rest)"
      using ih by (simp only: l)
    also have "\<dots> = drop n (drop 1 (undoStack w @ ?e # ?rest))"
      by (simp only: a)
    also have "\<dots> = drop (Suc n) (undoStack w @ ?e # ?rest)"
      by (simp del: drop_append)
    finally have h: "undoStack (saveStates n (Suc now) ?w) = drop (Suc n) (undoStack w @ ?e # ?rest)" .
    have k: "length (undoStack w) + Suc n - maxSize w = Suc n"
      using eq by simp
    show ?thesis
      by (simp only: saveStates.simps k m h)
  qed
qed

text \<open>
  C2. In every state a manager reaches from its construction, by any sequence of saved
  states, undos, redos and the other operations, \<open>maxSize\<close> is the configured one (50 by
  default) and the undo stack holds at most \<open>maxSize\<close> entries. A save onto a stack that
  is not full appends; a save onto a full stack appends and drops the oldest entry, the
  first of the stack. After \<open>n\<close> states saved in a row the stack is what remains of the
  old entries followed by the \<open>n\<close> new ones when the oldest are dropped down to
  \<open>maxSize\<close>; after more than \<open>maxSize\<close> of them it holds exactly \<open>maxSize\<close> entries.
\<close>

theorem undo_stack_bound:
  fixes objs vpt cfg t0 acts
  defines "w \<equiv> run (HistoryManager objs vpt cfg t0) acts"
  shows "maxSize w = (case cfg of None \<Rightarrow> 50 | Some n \<Rightarrow> n) \<and>
         getUndoStackSize w \<le> maxSize w \<and>
         (enabled w \<longrightarrow>
            undoStack (saveState now w) =
              (if length (undoStack w) < maxSize w
               then undoStack w @ [\<lparr>state = getCanvasState w, timestamp = now\<rparr>]
               else tl (undoStack w @ [\<lparr>state = getCanvasState w, timestamp = now\<rparr>]))) \<and>
         (enabled w \<longrightarrow>
            undoStack (saveStates n now w) =
              drop (length (undoStack w) + n - maxSize w)
                (undoStack w @
                 map (\<lambda>i. \<lparr>state = getCanvasState w, timestamp = now + i\<rparr>) [0..<n])) \<and>
         (enabled w \<and> maxSize w < n \<longrightarrow> getUndoStackSize (saveStates n now w) = maxSize w)"
proof -
  have b: "bounded w"
    unfolding w_def by (rule bounded_run[OF bounded_HistoryManager])
  then have le: "length (undoStack w) \<le> maxSize w"
    by (simp add: bounded_def)
  have m: "maxSize w = (case cfg of None \<Rightarrow> 50 | Some n \<Rightarrow> n)"
    unfolding w_def by (simp add: maxSize_run maxSize_HistoryManager)
  have s: "enabled w \<longrightarrow>
            undoStack (saveState now w) =
              (if length (undoStack w) < maxSize w
               then undoStack w @ [\<lparr>state = getCanvasState w, timestamp = now\<rparr>]
               else tl (undoStack w @ [\<lparr>state = getCanvasState w, timestamp = now\<rparr>]))"
    by (simp add: saveState_undoStack)
  have n: "enabled w \<and> maxSize w < n \<longrightarrow> getUndoStackSize (saveStates n now w) = maxSize w"
    using le by (auto simp: getUndoStackSize_def length_saveStates)
  have d: "enabled w \<longrightarrow>
            undoStack (saveStates n now w) =
              drop (length (undoStack w) + n - maxSize w)
                (undoStack w @
                 map (\<lambda>i. \<lparr>state = getCanvasState w, timestamp = now + i\<rparr>) [0..<n])"
    using le by (simp add: saveStates_drop)
  from m le s d n show ?thesis
    by (simp only: getUndoStackSize_def simp_thms)
qed

theorem undo_stack_bound_witness:
  "maxSize small_manager = 2 \<and>
   getUndoStackSize small_manager = 2 \<and>
   enabled small_manager \<and>
   undoStack small_manager =
     [\<lparr>state = \<lparr>json_objects = [1], json_viewportTransform = None\<rparr>, timestamp = 4\<rparr>,
      \<lparr>state = \<lparr>json_objects = [1, 3], json_viewportTransform = None\<rparr>, timestamp = 5\<rparr>] \<and>
   undoStack (saveState 6 small_manager) =
     [\<lparr>state = \<lparr>json_objects = [1, 3], json_viewportTransform = None\<rparr>, timestamp = 5\<rparr>,
      \<lparr>state = \<lparr>json_objects = [1, 3], json_viewportTransform = None\<rparr>, timestamp = 6\<rparr>] \<and>
   undoStack (saveStates 3 6 small_manager) =
     [\<lparr>state = \<lparr>json_objects = [1, 3], json_viewportTransform = None\<rparr>, timestamp = 7\<rparr>,
      \<lparr>state = \<lparr>json_objects = [1, 3], json_viewportTransform = None\<rparr>, timestamp = 8\<rparr>] \<and>
   getUndoStackSize (saveStates 3 6 small_manager) = 2"
proof -
  have e: "enabled small_manager"
    by code_simp
  have u: "undoStack small_manager =
     [\<lparr>state = \<lparr>json_objects = [1], json_viewportTransform = None\<rparr>, timestamp = 4\<rparr>,
      \<lparr>state = \<lparr>json_objects = [1, 3], json_viewportTransform = None\<rparr>, timestamp = 5\<rparr>]"
    by code_simp
  have g: "getCanvasState small_manager = \<lparr>json_objects = [1, 3], json_viewportTransform = None\<rparr>"
    by code_simp
  note t = undo_stack_bound[of "[]" "Some iMatrix" "Some 2" 0
      "[(1, Add 1), (2, Add 2), (3, Undo), (4, Resolve 0), (5, Add 3)]" 6 3,
      folded small_manager_def]
  have i: "[0..<3] = [0, 1, 2::nat]"
    by code_simp
  from t e show ?thesis
    by (simp add: u g i getUndoStackSize_def)
qed

section \<open>Redo invalidation\<close>

text \<open>
  C3. A \<open>saveState\<close> that runs (tracking enabled) leaves the redo stack empty, whatever
  it held; in particular a mutation notification that arrives when the manager is neither
  undoing nor redoing and tracking is enabled calls \<open>saveState\<close> and leaves the redo
  stack empty.
\<close>

theorem redo_invalidation:
  "(enabled w \<longrightarrow> getRedoStackSize (saveState now w) = 0) \<and>
   (ev \<in> set (listening w) \<and> \<not> isUndoing w \<and> \<not> isRedoing w \<and> enabled w \<longrightarrow>
      fire ev now w = saveState now w \<and> getRedoStackSize (fire ev now w) = 0)"
  by (simp add: getRedoStackSize_def saveState_redoStack fire_def handler_eq)

theorem redo_invalidation_witness:
  "enabled (undo 2 one_object_added) \<and>
   ObjectModified \<in> set (listening (undo 2 one_object_added)) \<and>
   \<not> isUndoing (undo 2 one_object_added) \<and> \<not> isRedoing (undo 2 one_object_added) \<and>
   getRedoStackSize (undo 2 one_object_added) = 1 \<and>
   getRedoStackSize (saveState 3 (undo 2 one_object_added)) = 0 \<and>
   getRedoStackSize (fire ObjectModified 3 (undo 2 one_object_added)) = 0"
proof -
  have e: "enabled (undo 2 one_object_added)"
    by code_simp
  have l: "ObjectModified \<in> set (listening (undo 2 one_object_added))"
    by code_simp
  have i: "\<not> isUndoing (undo 2 one_object_added) \<and> \<not> isRedoing (undo 2 one_object_added)"
    by code_simp
  have r: "getRedoStackSize (undo 2 one_object_added) = 1"
    by code_simp
  from redo_invalidation[of "undo 2 one_object_added" 3 ObjectModified] e l i r
  show ?thesis
    by simp
qed

section \<open>Queries agree with the stack sizes\<close>

text \<open>
  C7. In every state, reachable or not, \<open>canUndo\<close> is false exactly when the undo stack
  holds at most one entry, and \<open>canRedo\<close> is false exactly when the redo stack is empty.
\<close>

theorem canUndo_canRedo_consistency:
  "(\<not> canUndo w) = (getUndoStackSize w \<le> 1) \<and> (\<not> canRedo w) = (getRedoStackSize w = 0)"
  by (auto simp: canUndo_def canRedo_def getUndoStackSize_def getRedoStackSize_def)

section \<open>Notifications during a restore\<close>

lemma undo_flags:
  "enabled (undo now w) = enabled w"
  "isRedoing (undo now w) = isRedoing w"
  "listening (undo now w) = listening w"
  "isUndoing (undo now w) = (\<not> canUndo w \<and> isUndoing w)"
  by (simp_all add: undo_def Let_def emitHistoryChanged_def restoreState_def)

text \<open>
  Once \<open>undo\<close> or \<open>redo\<close> has returned, its restore is still pending and the flag is
  already cleared, so a notification that arrives before or while the restore resolves
  is saved like any other.
\<close>

lemma notification_after_undo_is_saved:
  "canUndo w \<Longrightarrow> enabled w \<Longrightarrow> \<not> isRedoing w \<Longrightarrow> ev \<in> set (listening w) \<Longrightarrow>
     pendingLoads (undo now w) \<noteq> [] \<and> fire ev later (undo now w) = saveState later (undo now w)"
  by (simp add: fire_def handler_eq undo_flags undo_sync(3))

lemma redo_returns_idle:
  "canRedo w \<Longrightarrow> \<not> isRedoing (redo now w) \<and> pendingLoads (redo now w) \<noteq> []"
  by (cases "redoStack w")
     (simp_all add: redo_def canRedo_def Let_def emitHistoryChanged_def restoreState_def)

lemma handler_saves_only_when_idle:
  "handler ev now w \<noteq> w \<Longrightarrow> \<not> isUndoing w \<and> \<not> isRedoing w \<and> enabled w"
  by (auto simp: handler_eq split: if_splits)

text \<open>
  C4. A handler saves only when the manager is neither undoing nor redoing and tracking is
  enabled (the lemma above), but \<open>undo\<close> clears \<open>isUndoing\<close> before it returns, while
  the restore resolves later. On a canvas with one object, an undo at time 2 leaves one
  entry on each stack and a pending load; when the load resolves at time 3, the removal
  of the object is recorded as a new entry and the redo stack is emptied.
\<close>

theorem restore_notifications_are_recorded:
  "\<not> isUndoing (undo 2 one_object_added) \<and>
   getUndoStackSize (undo 2 one_object_added) = 1 \<and>
   getRedoStackSize (undo 2 one_object_added) = 1 \<and>
   pendingLoads (undo 2 one_object_added) =
     [(\<lparr>json_objects = [], json_viewportTransform = None\<rparr>, iMatrix)] \<and>
   undoStack (resolveNth 0 3 (undo 2 one_object_added)) =
     [\<lparr>state = \<lparr>json_objects = [], json_viewportTransform = None\<rparr>, timestamp = 0\<rparr>,
      \<lparr>state = \<lparr>json_objects = [], json_viewportTransform = None\<rparr>, timestamp = 3\<rparr>] \<and>
   getRedoStackSize (resolveNth 0 3 (undo 2 one_object_added)) = 0"
  by code_simp

section \<open>Clearing and destroying\<close>

lemma clearHistory_disabled:
  "\<not> enabled w \<Longrightarrow>
     clearHistory now w =
       w\<lparr>undoStack := [], redoStack := [],
         historyChanged := historyChanged w @ [HistoryState False False]\<rparr>"
  by (simp add: clearHistory_def saveState_def emitHistoryChanged_def Let_def)

lemma clearHistory_enabled:
  "enabled w \<Longrightarrow>
     undoStack (clearHistory now w) =
       (if 0 < maxSize w then [\<lparr>state = getCanvasState w, timestamp = now\<rparr>] else [])"
  by (simp add: clearHistory_def Let_def emitHistoryChanged_def saveState_undoStack
      getCanvasState_def toJSON_def)

text \<open>
  C10. With tracking disabled, \<open>clearHistory\<close> leaves both stacks empty and emits one
  history-changed value, with both flags false. The undo stack is non-empty after
  \<open>clearHistory\<close> only if tracking was enabled at the call; then (for a positive
  \<open>maxSize\<close>) it holds exactly the fresh snapshot.
\<close>

theorem clearHistory_while_disabled:
  "(\<not> isEnabled w \<longrightarrow>
      getUndoStackSize (clearHistory now w) = 0 \<and>
      getRedoStackSize (clearHistory now w) = 0 \<and>
      historyChanged (clearHistory now w) = historyChanged w @ [HistoryState False False]) \<and>
   (getUndoStackSize (clearHistory now w) \<noteq> 0 \<longrightarrow> isEnabled w) \<and>
   (isEnabled w \<and> 0 < maxSize w \<longrightarrow>
      undoStack (clearHistory now w) = [\<lparr>state = getCanvasState w, timestamp = now\<rparr>])"
proof (cases "enabled w")
  case True
  then show ?thesis
    by (simp add: isEnabled_def clearHistory_enabled)
next
  case False
  then show ?thesis
    by (simp add: isEnabled_def getUndoStackSize_def getRedoStackSize_def clearHistory_disabled)
qed

theorem clearHistory_while_disabled_witness:
  "\<not> isEnabled (disable one_object_added) \<and>
   getUndoStackSize (disable one_object_added) = 2 \<and>
   getUndoStackSize (clearHistory 5 (disable one_object_added)) = 0 \<and>
   getRedoStackSize (clearHistory 5 (disable one_object_added)) = 0 \<and>
   historyChanged (clearHistory 5 (disable one_object_added)) =
     [HistoryState False False, HistoryState True False, HistoryState False False] \<and>
   isEnabled one_object_added \<and> 0 < maxSize one_object_added \<and>
   getUndoStackSize (clearHistory 5 one_object_added) \<noteq> 0 \<and>
   undoStack (clearHistory 5 one_object_added) =
     [\<lparr>state = \<lparr>json_objects = [7], json_viewportTransform = None\<rparr>, timestamp = 5\<rparr>]"
proof -
  have d: "\<not> isEnabled (disable one_object_added)"
    by code_simp
  have n: "getUndoStackSize (disable one_object_added) = 2"
    by code_simp
  have h: "historyChanged (disable one_object_added) =
             [HistoryState False False, HistoryState True False]"
    by code_simp
  have e: "isEnabled one_object_added \<and> 0 < maxSize one_object_added"
    by code_simp
  have g: "getCanvasState one_object_added = \<lparr>json_objects = [7], json_viewportTransform = None\<rparr>"
    by code_simp
  from clearHistory_while_disabled[of "disable one_object_added" 5]
    clearHistory_while_disabled[of one_object_added 5] d n e
  show ?thesis
    by (simp add: h g getUndoStackSize_def)
qed

lemma destroy_keeps_listening:
  "listening (destroy now w) = listening w \<and>
   (enabled w \<and> 0 < maxSize w \<longrightarrow> getUndoStackSize (destroy now w) = 1)"
  by (simp add: destroy_def clearHistory_def Let_def emitHistoryChanged_def getUndoStackSize_def
      saveState_undoStack)

text \<open>
  C6 fails on the code. \<open>destroy\<close> is \<open>clearHistory\<close> followed by switching tracking
  off: destroying a manager with tracking enabled leaves the snapshot that
  \<open>clearHistory\<close> took on the undo stack, and no handler is removed from the canvas,
  so that after \<open>enable\<close> the next mutation is recorded again. Only the redo stack is
  empty and tracking disabled, as the claim says.
\<close>

theorem destroy_leaves_entry_and_listeners:
  "getRedoStackSize (destroy 2 one_object_added) = 0 \<and>
   \<not> isEnabled (destroy 2 one_object_added) \<and>
   getUndoStackSize (destroy 2 one_object_added) = 1 \<and>
   undoStack (destroy 2 one_object_added) =
     [\<lparr>state = \<lparr>json_objects = [7], json_viewportTransform = None\<rparr>, timestamp = 2\<rparr>] \<and>
   listening (destroy 2 one_object_added) = [ObjectAdded, ObjectRemoved, ObjectModified] \<and>
   getUndoStackSize (canvas_add 9 3 (destroy 2 one_object_added)) = 1 \<and>
   getUndoStackSize (canvas_add 9 4 (enable (destroy 2 one_object_added))) = 2"
  by code_simp

section \<open>Wheel pan and spacebar pan\<close>

text \<open>
  C5 fails on the code. On a manager just constructed a wheel event of (1, 2) moves the
  translation by (1, 2). The wheel handler keeps no values of its own, though: it reads
  and writes \<open>lastPosX\<close> and \<open>lastPosY\<close>, the fields of the spacebar source. During a
  spacebar drag by (5, 7) these hold (5, 7), and a wheel event of (1, 2) then moves the
  translation from (5, 7) to (11, 16), not to (6, 9), and overwrites them with (1, 2).
\<close>

theorem wheel_pan_reads_spacebar_fields:
  "canvasViewport (on_mouse_wheel \<lparr>deltaX = 1, deltaY = 2\<rparr> default_input) =
     Some (iMatrix\<lparr>vpt4 := 1, vpt5 := 2\<rparr>) \<and>
   canvasViewport after_spacebar_drag = Some (iMatrix\<lparr>vpt4 := 5, vpt5 := 7\<rparr>) \<and>
   lastPosX after_spacebar_drag = 5 \<and> lastPosY after_spacebar_drag = 7 \<and>
   canvasViewport after_wheel = Some (iMatrix\<lparr>vpt4 := 11, vpt5 := 16\<rparr>) \<and>
   canvasViewport after_wheel \<noteq> Some (iMatrix\<lparr>vpt4 := 5 + 1, vpt5 := 7 + 2\<rparr>) \<and>
   lastPosX after_wheel = 1 \<and> lastPosY after_wheel = 2"
  by (simp add: after_wheel_def after_spacebar_drag_def default_input_def InputManager_def
      on_mouse_wheel_def on_mouse_move_def on_mouse_down_def on_keydown_def
      mouseWheelListener_def mouseMoveListener_def mouseDownListener_def
      spacebarKeydownListener_def iMatrix_def)

section \<open>Touch pan\<close>

text \<open>
  C8. On a pan-move with no object selected, the centroid delta is added to the
  translation of the viewport transform exactly when both of its components are at most
  \<open>touchPanMaxJump\<close> in absolute value; otherwise the transform is left as it is. With a
  bound of 200, a delta of (250, 0) leaves the transform unchanged and a delta of
  (150, 150) is added in full.
\<close>

theorem touch_pan_jump_suppression:
  "(activeObject s = None \<longrightarrow>
      canvasViewport (panmove c s) =
        (if \<bar>x_of c - touchPanLastX s\<bar> \<le> touchPanMaxJump s \<and>
            \<bar>y_of c - touchPanLastY s\<bar> \<le> touchPanMaxJump s
         then map_option (\<lambda>v. v\<lparr>vpt4 := vpt4 v + (x_of c - touchPanLastX s),
                                 vpt5 := vpt5 v + (y_of c - touchPanLastY s)\<rparr>) (canvasViewport s)
         else canvasViewport s)) \<and>
   (activeObject s = None \<and> touchPanMaxJump s = 200 \<and>
    x_of c - touchPanLastX s = 250 \<and> y_of c - touchPanLastY s = 0 \<longrightarrow>
      canvasViewport (panmove c s) = canvasViewport s) \<and>
   (activeObject s = None \<and> touchPanMaxJump s = 200 \<and> canvasViewport s = Some v \<and>
    x_of c - touchPanLastX s = 150 \<and> y_of c - touchPanLastY s = 150 \<longrightarrow>
      canvasViewport (panmove c s) = Some (v\<lparr>vpt4 := vpt4 v + 150, vpt5 := vpt5 v + 150\<rparr>))"
  by (auto simp: panmove_def pan_def Let_def split: option.splits)

theorem touch_pan_jump_suppression_witness:
  "activeObject touch_started = None \<and> touchPanMaxJump touch_started = 200 \<and>
   canvasViewport touch_started = Some iMatrix \<and>
   touchPanLastX touch_started = 100 \<and> touchPanLastY touch_started = 100 \<and>
   canvasViewport (panmove \<lparr>x_of = 350, y_of = 100\<rparr> touch_started) = Some iMatrix \<and>
   canvasViewport (panmove \<lparr>x_of = 250, y_of = 250\<rparr> touch_started) =
     Some (iMatrix\<lparr>vpt4 := 150, vpt5 := 150\<rparr>)"
proof -
  have a: "activeObject touch_started = None \<and> touchPanMaxJump touch_started = 200 \<and>
           canvasViewport touch_started = Some iMatrix \<and>
           touchPanLastX touch_started = 100 \<and> touchPanLastY touch_started = 100"
    by (simp add: touch_started_def on_panstart_def panstart_def default_input_def
        InputManager_def)
  from touch_pan_jump_suppression[of touch_started "\<lparr>x_of = 350, y_of = 100\<rparr>" iMatrix]
    touch_pan_jump_suppression[of touch_started "\<lparr>x_of = 250, y_of = 250\<rparr>" iMatrix] a
  show ?thesis
    by (simp add: iMatrix_def)
qed

section \<open>The debounced change channel\<close>

lemma debounce_burst:
  "burst d (t # ts) \<Longrightarrow> debounceTime d (Some (t + d)) ts = [last (t # ts) + d]"
  by (induction ts arbitrary: t) auto

text \<open>
  C9. When the inputs that reach the six merged subjects form a burst of at least one
  value, each less than \<open>debounceMs\<close> after the one before, a subscriber of
  \<open>onChange()\<close> receives exactly one value, without payload, \<open>debounceMs\<close> after the last
  one of the burst.
\<close>

theorem debounce_collapse:
  "merged timeline \<noteq> [] \<and> burst debounceMs (merged timeline) \<longrightarrow>
     onChange debounceMs timeline = [(last (merged timeline) + debounceMs, ())]"
proof (cases "merged timeline")
  case Nil
  then show ?thesis by simp
next
  case (Cons t ts)
  then show ?thesis
    using debounce_burst[of debounceMs t ts] by (simp add: onChange_def)
qed

theorem debounce_collapse_witness:
  "EventManager_debounceMs None = 1000 \<and>
   merged burst_timeline = [0, 999, 1500] \<and>
   burst (EventManager_debounceMs None) (merged burst_timeline) \<and>
   onChange (EventManager_debounceMs None) burst_timeline = [(2500, ())]"
proof -
  have d: "EventManager_debounceMs None = 1000"
    by (simp add: EventManager_debounceMs_def)
  have m: "merged burst_timeline = [0, 999, 1500]"
    by code_simp
  have b: "burst 1000 [0, 999, 1500]"
    by code_simp
  from debounce_collapse[of burst_timeline 1000] m b d
  show ?thesis
    by simp
qed

end
